theory Spec2Isabelle
  imports Main "HOL-Library.Word"
begin

unbundle bit_operations_syntax

section \<open>The mode bitmask (enum MapperConfig)\<close>

text \<open>
  \<open>flags_\<close> is a C++ \<open>int\<close>; the bitwise operators of the source act on its 32 bits,
  so the bitmask is a 32-bit word.
\<close>

type_synonym flags = "32 word"

definition IGNORE_MISSING_FIELDS :: flags where "IGNORE_MISSING_FIELDS = 1"
definition INCLUDE_PRIMARY_KEY :: flags where "INCLUDE_PRIMARY_KEY = 2"
definition IGNORE_DIRTY_FLAG :: flags where "IGNORE_DIRTY_FLAG = 4"
definition TOUCH_FIELDS :: flags where "TOUCH_FIELDS = 8"
definition KEEP_FIELDS_DIRTY :: flags where "KEEP_FIELDS_DIRTY = 16"
definition OUTPUT_SINGLE_FIELD :: flags where "OUTPUT_SINGLE_FIELD = 32"

section \<open>The collaborators of the Mapper\<close>

text \<open>
  \<open>mapper.h\<close> includes \<open>restful_mapper/json.h\<close>, \<open>field.h\<close> and \<open>relation.h\<close>, whose
  code is missing. What the Mapper needs of them is modelled from the contracts of the
  specification (sections 2 and 6); conversions between JSON nodes and native values,
  which the specification leaves opaque, are parameters.
\<close>

subsection \<open>Document service: errors, nodes, parser\<close>

datatype error = NotFound string

text \<open>
  Modelled from the spec: \<open>Json::Node\<close> is missing. A node is either JSON null or some
  other JSON value, kept opaque (\<open>'j\<close>); \<open>is_null()\<close> tells the two apart.
\<close>

datatype 'j node = JNull | JValue 'j

fun node_is_null :: "'j node \<Rightarrow> bool" where
  "node_is_null JNull = True"
| "node_is_null (JValue v) = False"

text \<open>
  Modelled from the spec: \<open>Json::Parser\<close> is missing. The loaded document binds keys to
  nodes; a parser that was never loaded binds nothing. \<open>exists(key)\<close> is the existence
  check, \<open>find(key)\<close> returns the node and fails with the not-found error when the key is
  absent, \<open>empty(key)\<close> holds when the key is absent or its node is empty (what counts as
  an empty node is the parameter \<open>node_empty\<close>).
\<close>

type_synonym 'j parser = "string \<rightharpoonup> 'j node"

text \<open>
  Modelled from the spec: \<open>Json::not_found(key)\<close> is missing. It fails with the
  field-not-found error naming the key; the error propagates to the caller.
\<close>

definition not_found :: "string \<Rightarrow> error + 'x" where
  "not_found key = Inl (NotFound key)"

definition parser_exists :: "'j parser \<Rightarrow> string \<Rightarrow> bool" where
  "parser_exists p key = (p key \<noteq> None)"

definition parser_find :: "'j parser \<Rightarrow> string \<Rightarrow> error + 'j node" where
  "parser_find p key = (case p key of None \<Rightarrow> not_found key | Some n \<Rightarrow> Inr n)"

definition parser_empty :: "('j node \<Rightarrow> bool) \<Rightarrow> 'j parser \<Rightarrow> string \<Rightarrow> bool" where
  "parser_empty node_empty p key = (case p key of None \<Rightarrow> True | Some n \<Rightarrow> node_empty n)"

subsection \<open>Document service: emitter\<close>

text \<open>
  Modelled from the spec: \<open>Json::Emitter\<close> is missing. It is an append-only buffer; the
  model keeps the sequence of emitter calls received so far, and \<open>dump()\<close> returns that
  sequence in place of the text it stands for. A value is emitted as the cell's native
  value (generic cells), as text (timestamps) or as an integer (primary keys).
\<close>

datatype 'a jvalue = Native 'a | Text string | Integer int

datatype 'a event =
    MapOpen
  | MapClose
  | EmitKey string
  | EmitValue "'a jvalue"
  | EmitNull
  | EmitJson string

type_synonym 'a emitter = "'a event list"

definition emit_map_open :: "'a emitter \<Rightarrow> 'a emitter" where
  "emit_map_open e = e @ [MapOpen]"

definition emit_map_close :: "'a emitter \<Rightarrow> 'a emitter" where
  "emit_map_close e = e @ [MapClose]"

definition emit_key :: "string \<Rightarrow> 'a emitter \<Rightarrow> 'a emitter" where
  "emit_key key e = e @ [EmitKey key]"

definition emit_value :: "'a jvalue \<Rightarrow> 'a emitter \<Rightarrow> 'a emitter" where
  "emit_value v e = e @ [EmitValue v]"

definition emit_null :: "'a emitter \<Rightarrow> 'a emitter" where
  "emit_null e = e @ [EmitNull]"

definition emit_json :: "string \<Rightarrow> 'a emitter \<Rightarrow> 'a emitter" where
  "emit_json json_struct e = e @ [EmitJson json_struct]"

definition emitter_dump :: "'a emitter \<Rightarrow> 'a event list" where
  "emitter_dump e = e"

subsection \<open>Typed cells\<close>

text \<open>
  Modelled from the spec: \<open>Field<T>\<close> and \<open>Primary\<close> are missing. A cell holds an
  optional scalar and a dirty flag; it is null when it holds no scalar. \<open>set\<close> and \<open>clear\<close>
  each optionally mark the cell dirty, \<open>touch\<close> forces it dirty, \<open>clean\<close> clears the dirty
  flag. The value accessor (\<open>field_get\<close>) is read by the Mapper on non-null cells only.
  A primary-key cell holds an integer.
\<close>

record 'a field =
  cell_value :: "'a option"
  cell_dirty :: bool

type_synonym primary = "int field"

definition is_null :: "'a field \<Rightarrow> bool" where
  "is_null c = (cell_value c = None)"

definition is_dirty :: "'a field \<Rightarrow> bool" where
  "is_dirty c = cell_dirty c"

definition field_get :: "'a field \<Rightarrow> 'a" where
  "field_get c = the (cell_value c)"

definition field_set :: "'a \<Rightarrow> bool \<Rightarrow> 'a field \<Rightarrow> 'a field" where
  "field_set v mark_dirty c =
     c\<lparr>cell_value := Some v, cell_dirty := (mark_dirty \<or> cell_dirty c)\<rparr>"

definition field_clear :: "bool \<Rightarrow> 'a field \<Rightarrow> 'a field" where
  "field_clear mark_dirty c =
     c\<lparr>cell_value := None, cell_dirty := (mark_dirty \<or> cell_dirty c)\<rparr>"

definition touch :: "'a field \<Rightarrow> 'a field" where
  "touch c = c\<lparr>cell_dirty := True\<rparr>"

definition clean :: "'a field \<Rightarrow> 'a field" where
  "clean c = c\<lparr>cell_dirty := False\<rparr>"

subsection \<open>Relation containers\<close>

text \<open>
  Modelled from the spec: \<open>HasOne<T>\<close> and \<open>HasMany<T>\<close> are missing. A container is
  opaque (\<open>'r\<close>); the four operations the Mapper calls on it are parameters.
\<close>

record 'r relation_ops =
  from_json :: "string \<Rightarrow> flags \<Rightarrow> 'r \<Rightarrow> 'r"
  to_json :: "'r \<Rightarrow> flags \<Rightarrow> string"
  rel_is_dirty :: "'r \<Rightarrow> bool"
  rel_clean :: "'r \<Rightarrow> 'r"

section \<open>class Mapper\<close>

text \<open>
  The members \<open>emitter_\<close>, \<open>parser_\<close>, \<open>flags_\<close> and \<open>field_filter_\<close>; the accessors
  \<open>flags()\<close> and \<open>field_filter()\<close> are the selectors of the record.
\<close>

record ('j, 'a) mapper =
  emitter :: "'a emitter"
  parser :: "'j parser"
  flags :: flags
  field_filter :: string

definition should_ignore_missing_fields :: "('j, 'a) mapper \<Rightarrow> bool" where
  "should_ignore_missing_fields m =
     (flags m AND IGNORE_MISSING_FIELDS = IGNORE_MISSING_FIELDS)"

definition should_include_primary_key :: "('j, 'a) mapper \<Rightarrow> bool" where
  "should_include_primary_key m =
     (flags m AND INCLUDE_PRIMARY_KEY = INCLUDE_PRIMARY_KEY)"

definition should_ignore_dirty_flag :: "('j, 'a) mapper \<Rightarrow> bool" where
  "should_ignore_dirty_flag m = (flags m AND IGNORE_DIRTY_FLAG = IGNORE_DIRTY_FLAG)"

definition should_touch_fields :: "('j, 'a) mapper \<Rightarrow> bool" where
  "should_touch_fields m = (flags m AND TOUCH_FIELDS = TOUCH_FIELDS)"

definition should_keep_fields_dirty :: "('j, 'a) mapper \<Rightarrow> bool" where
  "should_keep_fields_dirty m = (flags m AND KEEP_FIELDS_DIRTY = KEEP_FIELDS_DIRTY)"

definition should_output_single_field :: "('j, 'a) mapper \<Rightarrow> bool" where
  "should_output_single_field m =
     (flags m AND OUTPUT_SINGLE_FIELD = OUTPUT_SINGLE_FIELD)"

subsection \<open>Construction, flags, filter, dump\<close>

text \<open>\<open>Mapper(const int &flags = 0)\<close>: the parser is never loaded.\<close>

definition Mapper :: "flags \<Rightarrow> ('j, 'a) mapper" where
  "Mapper fl =
     (let m = \<lparr>emitter = [], parser = Map.empty, flags = fl, field_filter = []\<rparr>
      in if \<not> should_output_single_field m
         then m\<lparr>emitter := emit_map_open (emitter m)\<rparr>
         else m)"

text \<open>
  \<open>Mapper(std::string json_struct, const int &flags = 0)\<close>; \<open>load\<close> stands for
  \<open>Json::Parser::load\<close>, which parses the text into the document.
\<close>

definition Mapper_json :: "(string \<Rightarrow> 'j parser) \<Rightarrow> string \<Rightarrow> flags \<Rightarrow> ('j, 'a) mapper" where
  "Mapper_json load json_struct fl =
     (let m = \<lparr>emitter = [], parser = Map.empty, flags = fl, field_filter = []\<rparr>;
          m1 = (if \<not> should_output_single_field m
                then m\<lparr>emitter := emit_map_open (emitter m)\<rparr>
                else m)
      in m1\<lparr>parser := load json_struct\<rparr>)"

definition set_flags :: "flags \<Rightarrow> ('j, 'a) mapper \<Rightarrow> ('j, 'a) mapper" where
  "set_flags fl m = m\<lparr>flags := fl\<rparr>"

definition set_field_filter :: "string \<Rightarrow> ('j, 'a) mapper \<Rightarrow> ('j, 'a) mapper" where
  "set_field_filter ff m = m\<lparr>field_filter := ff\<rparr>"

text \<open>\<open>dump()\<close> returns the emitted document and leaves the closed emitter behind.\<close>

definition dump :: "('j, 'a) mapper \<Rightarrow> 'a event list \<times> ('j, 'a) mapper" where
  "dump m =
     (let m1 = (if \<not> should_output_single_field m
                then m\<lparr>emitter := emit_map_close (emitter m)\<rparr>
                else m)
      in (emitter_dump (emitter m1), m1))"

subsection \<open>Raw get and set\<close>

text \<open>\<open>get(key)\<close>; \<open>node_dump\<close> stands for \<open>Json::Node::dump\<close>.\<close>

definition get_raw :: "('j node \<Rightarrow> string) \<Rightarrow> ('j, 'a) mapper \<Rightarrow> string \<Rightarrow> error + string" where
  "get_raw node_dump m key =
     (case parser_find (parser m) key of
        Inl e \<Rightarrow> Inl e
      | Inr n \<Rightarrow> Inr (node_dump n))"

definition set_raw :: "('j, 'a) mapper \<Rightarrow> string \<Rightarrow> string \<Rightarrow> ('j, 'a) mapper" where
  "set_raw m key json_struct =
     (if should_output_single_field m \<and> field_filter m \<noteq> key then m
      else
        let e1 = (if \<not> should_output_single_field m
                  then emit_key key (emitter m) else emitter m)
        in m\<lparr>emitter := emit_json json_struct e1\<rparr>)"

subsection \<open>Typed get\<close>

text \<open>
  A typed get mutates the cell it is given and may raise. Its result is the error raised,
  if any, together with the cell as the call leaves it: when \<open>not_found\<close> raises, the
  statements after it (the touch) are not run. The three overloads differ in how the node
  is converted: \<open>Field<T>::set(node, true)\<close> (\<open>conv\<close>), \<open>node.to_string()\<close> followed by
  the timestamp cell's \<open>set\<close> of a string (\<open>to_string\<close>, \<open>parse\<close>), and \<open>node.to_int()\<close>
  (\<open>to_int\<close>).
\<close>

definition get_field ::
  "('j node \<Rightarrow> 'b) \<Rightarrow> ('j, 'a) mapper \<Rightarrow> string \<Rightarrow> 'b field \<Rightarrow> error option \<times> 'b field" where
  "get_field conv m key attr =
     (let r =
        (if parser_exists (parser m) key then
           (case parser_find (parser m) key of
              Inl e \<Rightarrow> Inl e
            | Inr node \<Rightarrow>
                Inr (if node_is_null node then field_clear True attr
                     else field_set (conv node) True attr))
         else if \<not> should_ignore_missing_fields m then not_found key
         else Inr attr)
      in case r of
           Inl e \<Rightarrow> (Some e, attr)
         | Inr attr1 \<Rightarrow> (None, if should_touch_fields m then touch attr1 else attr1))"

definition get_time ::
  "('j node \<Rightarrow> string) \<Rightarrow> (string \<Rightarrow> 't) \<Rightarrow> ('j, 'a) mapper \<Rightarrow> string \<Rightarrow> 't field
     \<Rightarrow> error option \<times> 't field" where
  "get_time to_string parse m key attr =
     (let r =
        (if parser_exists (parser m) key then
           (case parser_find (parser m) key of
              Inl e \<Rightarrow> Inl e
            | Inr node \<Rightarrow>
                Inr (if node_is_null node then field_clear True attr
                     else field_set (parse (to_string node)) True attr))
         else if \<not> should_ignore_missing_fields m then not_found key
         else Inr attr)
      in case r of
           Inl e \<Rightarrow> (Some e, attr)
         | Inr attr1 \<Rightarrow> (None, if should_touch_fields m then touch attr1 else attr1))"

definition get_primary ::
  "('j node \<Rightarrow> int) \<Rightarrow> ('j, 'a) mapper \<Rightarrow> string \<Rightarrow> primary \<Rightarrow> error option \<times> primary" where
  "get_primary to_int m key attr =
     (let r =
        (if parser_exists (parser m) key then
           (case parser_find (parser m) key of
              Inl e \<Rightarrow> Inl e
            | Inr node \<Rightarrow>
                Inr (if node_is_null node then field_clear True attr
                     else field_set (to_int node) True attr))
         else if \<not> should_ignore_missing_fields m then not_found key
         else Inr attr)
      in case r of
           Inl e \<Rightarrow> (Some e, attr)
         | Inr attr1 \<Rightarrow> (None, if should_touch_fields m then touch attr1 else attr1))"

subsection \<open>Typed set\<close>

text \<open>
  A typed set returns the mapper with its emitter advanced and the cell, whose dirty flag
  it may clear. \<open>to_iso8601\<close> is the timestamp cell's text form.
\<close>

definition set_field ::
  "('j, 'a) mapper \<Rightarrow> string \<Rightarrow> 'a field \<Rightarrow> ('j, 'a) mapper \<times> 'a field" where
  "set_field m key attr =
     (if should_output_single_field m \<and> field_filter m \<noteq> key then (m, attr)
      else if \<not> should_ignore_dirty_flag m \<and> \<not> is_dirty attr then (m, attr)
      else
        let e1 = (if \<not> should_output_single_field m
                  then emit_key key (emitter m) else emitter m);
            e2 = (if is_null attr then emit_null e1
                  else emit_value (Native (field_get attr)) e1)
        in (m\<lparr>emitter := e2\<rparr>,
            if \<not> should_keep_fields_dirty m then clean attr else attr))"

definition set_time ::
  "('t \<Rightarrow> bool \<Rightarrow> string) \<Rightarrow> ('j, 'a) mapper \<Rightarrow> string \<Rightarrow> 't field
     \<Rightarrow> ('j, 'a) mapper \<times> 't field" where
  "set_time to_iso8601 m key attr =
     (if should_output_single_field m \<and> field_filter m \<noteq> key then (m, attr)
      else if \<not> should_ignore_dirty_flag m \<and> \<not> is_dirty attr then (m, attr)
      else
        let e1 = (if \<not> should_output_single_field m
                  then emit_key key (emitter m) else emitter m);
            e2 = (if is_null attr then emit_null e1
                  else emit_value (Text (to_iso8601 (field_get attr) True)) e1)
        in (m\<lparr>emitter := e2\<rparr>,
            if \<not> should_keep_fields_dirty m then clean attr else attr))"

definition set_primary ::
  "('j, 'a) mapper \<Rightarrow> string \<Rightarrow> primary \<Rightarrow> ('j, 'a) mapper \<times> primary" where
  "set_primary m key attr =
     (if should_output_single_field m \<and> field_filter m \<noteq> key then (m, attr)
      else if \<not> should_include_primary_key m \<or> is_null attr then (m, attr)
      else
        let e1 = (if \<not> should_output_single_field m
                  then emit_key key (emitter m) else emitter m);
            e2 = emit_value (Integer (field_get attr)) e1
        in (m\<lparr>emitter := e2\<rparr>,
            if \<not> should_keep_fields_dirty m then clean attr else attr))"

subsection \<open>Relation get and set\<close>

definition get_has_one ::
  "('j node \<Rightarrow> bool) \<Rightarrow> ('j node \<Rightarrow> string) \<Rightarrow> 'r relation_ops \<Rightarrow> ('j, 'a) mapper
     \<Rightarrow> string \<Rightarrow> 'r \<Rightarrow> error option \<times> 'r" where
  "get_has_one node_empty node_dump ops m key attr =
     (if parser_empty node_empty (parser m) key then (None, attr)
      else
        case get_raw node_dump m key of
          Inl e \<Rightarrow> (Some e, attr)
        | Inr frag \<Rightarrow> (None, from_json ops frag (flags m OR INCLUDE_PRIMARY_KEY) attr))"

definition set_has_one ::
  "'r relation_ops \<Rightarrow> ('j, 'a) mapper \<Rightarrow> string \<Rightarrow> 'r \<Rightarrow> ('j, 'a) mapper \<times> 'r" where
  "set_has_one ops m key attr =
     (if should_output_single_field m \<and> field_filter m \<noteq> key then (m, attr)
      else if \<not> should_ignore_dirty_flag m \<and> \<not> rel_is_dirty ops attr then (m, attr)
      else
        (set_raw m key
           (to_json ops attr ((flags m OR INCLUDE_PRIMARY_KEY) AND NOT OUTPUT_SINGLE_FIELD)),
         if \<not> should_keep_fields_dirty m then rel_clean ops attr else attr))"

definition get_has_many ::
  "('j node \<Rightarrow> bool) \<Rightarrow> ('j node \<Rightarrow> string) \<Rightarrow> 'r relation_ops \<Rightarrow> ('j, 'a) mapper
     \<Rightarrow> string \<Rightarrow> 'r \<Rightarrow> error option \<times> 'r" where
  "get_has_many node_empty node_dump ops m key attr =
     (if parser_empty node_empty (parser m) key then (None, attr)
      else
        case get_raw node_dump m key of
          Inl e \<Rightarrow> (Some e, attr)
        | Inr frag \<Rightarrow> (None, from_json ops frag (flags m OR INCLUDE_PRIMARY_KEY) attr))"

definition set_has_many ::
  "'r relation_ops \<Rightarrow> ('j, 'a) mapper \<Rightarrow> string \<Rightarrow> 'r \<Rightarrow> ('j, 'a) mapper \<times> 'r" where
  "set_has_many ops m key attr =
     (if should_output_single_field m \<and> field_filter m \<noteq> key then (m, attr)
      else if \<not> should_ignore_dirty_flag m \<and> \<not> rel_is_dirty ops attr then (m, attr)
      else
        (set_raw m key
           (to_json ops attr ((flags m OR INCLUDE_PRIMARY_KEY) AND NOT OUTPUT_SINGLE_FIELD)),
         if \<not> should_keep_fields_dirty m then rel_clean ops attr else attr))"

section \<open>A caller's sequence of calls on one Mapper\<close>

text \<open>
  Serialization is a sequence of calls on one instance, closed by \<open>dump\<close>. The calls
  that change the instance are the sets, \<open>set_flags\<close> and \<open>set_field_filter\<close>; \<open>perform\<close>
  runs one of them and keeps the instance, \<open>perform_all\<close> runs a sequence in order.
\<close>

datatype ('a, 't, 'r) call =
    SetRaw string string
  | SetField string "'a field"
  | SetTime string "'t field"
  | SetPrimary string primary
  | SetHasOne string 'r
  | SetHasMany string 'r
  | SetFlags flags
  | SetFieldFilter string

fun perform ::
  "('t \<Rightarrow> bool \<Rightarrow> string) \<Rightarrow> 'r relation_ops \<Rightarrow> ('a, 't, 'r) call \<Rightarrow> ('j, 'a) mapper
     \<Rightarrow> ('j, 'a) mapper" where
  "perform to_iso8601 ops (SetRaw key json_struct) m = set_raw m key json_struct"
| "perform to_iso8601 ops (SetField key attr) m = fst (set_field m key attr)"
| "perform to_iso8601 ops (SetTime key attr) m = fst (set_time to_iso8601 m key attr)"
| "perform to_iso8601 ops (SetPrimary key attr) m = fst (set_primary m key attr)"
| "perform to_iso8601 ops (SetHasOne key attr) m = fst (set_has_one ops m key attr)"
| "perform to_iso8601 ops (SetHasMany key attr) m = fst (set_has_many ops m key attr)"
| "perform to_iso8601 ops (SetFlags fl) m = set_flags fl m"
| "perform to_iso8601 ops (SetFieldFilter ff) m = set_field_filter ff m"

fun perform_all ::
  "('t \<Rightarrow> bool \<Rightarrow> string) \<Rightarrow> 'r relation_ops \<Rightarrow> ('a, 't, 'r) call list \<Rightarrow> ('j, 'a) mapper
     \<Rightarrow> ('j, 'a) mapper" where
  "perform_all to_iso8601 ops [] m = m"
| "perform_all to_iso8601 ops (c # cs) m = perform_all to_iso8601 ops cs (perform to_iso8601 ops c m)"

text \<open>The key of a set call; \<open>set_flags\<close> and \<open>set_field_filter\<close> have none.\<close>

fun call_key :: "('a, 't, 'r) call \<Rightarrow> string option" where
  "call_key (SetRaw key json_struct) = Some key"
| "call_key (SetField key attr) = Some key"
| "call_key (SetTime key attr) = Some key"
| "call_key (SetPrimary key attr) = Some key"
| "call_key (SetHasOne key attr) = Some key"
| "call_key (SetHasMany key attr) = Some key"
| "call_key (SetFlags fl) = None"
| "call_key (SetFieldFilter ff) = None"

section \<open>Unfolding rules\<close>

lemmas MapperConfig_defs =
  IGNORE_MISSING_FIELDS_def INCLUDE_PRIMARY_KEY_def IGNORE_DIRTY_FLAG_def
  TOUCH_FIELDS_def KEEP_FIELDS_DIRTY_def OUTPUT_SINGLE_FIELD_def

lemmas emit_defs =
  emit_map_open_def emit_map_close_def emit_key_def emit_value_def emit_null_def
  emit_json_def emitter_dump_def

lemmas field_defs =
  is_null_def is_dirty_def field_get_def field_set_def field_clear_def touch_def clean_def

lemmas should_defs =
  should_ignore_missing_fields_def should_include_primary_key_def
  should_ignore_dirty_flag_def should_touch_fields_def should_keep_fields_dirty_def
  should_output_single_field_def

section \<open>Facts about the operations\<close>

text \<open>
  What the two constructors leave behind, and what \<open>dump\<close> returns.
\<close>

lemma constructed:
  "flags (Mapper fl) = fl"
  "field_filter (Mapper fl) = []"
  "emitter (Mapper fl) = (if fl AND OUTPUT_SINGLE_FIELD = OUTPUT_SINGLE_FIELD then [] else [MapOpen])"
  "flags (Mapper_json load js fl) = fl"
  "field_filter (Mapper_json load js fl) = []"
  "parser (Mapper_json load js fl) = load js"
  "emitter (Mapper_json load js fl)
     = (if fl AND OUTPUT_SINGLE_FIELD = OUTPUT_SINGLE_FIELD then [] else [MapOpen])"
  by (simp_all add: Mapper_def Mapper_json_def should_output_single_field_def emit_defs Let_def)

lemma dump_out:
  "fst (dump m) = (if should_output_single_field m then emitter m else emitter m @ [MapClose])"
  by (simp add: dump_def emit_defs Let_def)

lemmas eval_defs =
  constructed should_defs MapperConfig_defs emit_defs field_defs dump_def Let_def
  set_flags_def set_field_filter_def

text \<open>
  The typed gets, by whether the key is bound in the document.
\<close>

lemma get_present:
  assumes "parser m key = Some n"
  shows "get_field conv m key attr =
           (None, let a1 = (if node_is_null n then field_clear True attr else field_set (conv n) True attr)
                  in if should_touch_fields m then touch a1 else a1)"
    and "get_time to_string parse m key tattr =
           (None, let a1 = (if node_is_null n then field_clear True tattr
                            else field_set (parse (to_string n)) True tattr)
                  in if should_touch_fields m then touch a1 else a1)"
    and "get_primary to_int m key pk =
           (None, let a1 = (if node_is_null n then field_clear True pk else field_set (to_int n) True pk)
                  in if should_touch_fields m then touch a1 else a1)"
  using assms
  by (simp_all add: get_field_def get_time_def get_primary_def parser_exists_def parser_find_def Let_def)

lemma get_absent:
  assumes "parser m key = None"
  shows "get_field conv m key attr =
           (if should_ignore_missing_fields m
            then (None, if should_touch_fields m then touch attr else attr)
            else (Some (NotFound key), attr))"
    and "get_time to_string parse m key tattr =
           (if should_ignore_missing_fields m
            then (None, if should_touch_fields m then touch tattr else tattr)
            else (Some (NotFound key), tattr))"
    and "get_primary to_int m key pk =
           (if should_ignore_missing_fields m
            then (None, if should_touch_fields m then touch pk else pk)
            else (Some (NotFound key), pk))"
  using assms
  by (simp_all add: get_field_def get_time_def get_primary_def parser_exists_def not_found_def Let_def)

lemma get_raw_present:
  "parser m key = Some n \<Longrightarrow> get_raw node_dump m key = Inr (node_dump n)"
  by (simp add: get_raw_def parser_find_def)

text \<open>
  The two bits the typed gets read are determined by the bitmask restricted to them.
\<close>

lemma bits_of_get:
  fixes f g :: flags
  assumes "f AND (IGNORE_MISSING_FIELDS OR TOUCH_FIELDS) = g AND (IGNORE_MISSING_FIELDS OR TOUCH_FIELDS)"
  shows "(f AND IGNORE_MISSING_FIELDS = IGNORE_MISSING_FIELDS)
           = (g AND IGNORE_MISSING_FIELDS = IGNORE_MISSING_FIELDS)"
    and "(f AND TOUCH_FIELDS = TOUCH_FIELDS) = (g AND TOUCH_FIELDS = TOUCH_FIELDS)"
proof -
  have a: "x AND IGNORE_MISSING_FIELDS
             = (x AND (IGNORE_MISSING_FIELDS OR TOUCH_FIELDS)) AND IGNORE_MISSING_FIELDS"
    for x :: flags
    by (simp add: MapperConfig_defs and.assoc)
  have b: "x AND TOUCH_FIELDS = (x AND (IGNORE_MISSING_FIELDS OR TOUCH_FIELDS)) AND TOUCH_FIELDS"
    for x :: flags
    by (simp add: MapperConfig_defs and.assoc)
  show "(f AND IGNORE_MISSING_FIELDS = IGNORE_MISSING_FIELDS)
          = (g AND IGNORE_MISSING_FIELDS = IGNORE_MISSING_FIELDS)"
    using a [of f] a [of g] assms by simp
  show "(f AND TOUCH_FIELDS = TOUCH_FIELDS) = (g AND TOUCH_FIELDS = TOUCH_FIELDS)"
    using b [of f] b [of g] assms by simp
qed

text \<open>
  The bitmasks handed to relation containers, bit by bit.
\<close>

lemma propagated_bits:
  fixes f :: flags
  shows "(f OR INCLUDE_PRIMARY_KEY) AND INCLUDE_PRIMARY_KEY = INCLUDE_PRIMARY_KEY"
    and "((f OR INCLUDE_PRIMARY_KEY) AND NOT OUTPUT_SINGLE_FIELD) AND INCLUDE_PRIMARY_KEY
           = INCLUDE_PRIMARY_KEY"
    and "((f OR INCLUDE_PRIMARY_KEY) AND NOT OUTPUT_SINGLE_FIELD) AND OUTPUT_SINGLE_FIELD = 0"
    and "(f OR INCLUDE_PRIMARY_KEY) AND NOT INCLUDE_PRIMARY_KEY = f AND NOT INCLUDE_PRIMARY_KEY"
    and "((f OR INCLUDE_PRIMARY_KEY) AND NOT OUTPUT_SINGLE_FIELD)
           AND NOT (INCLUDE_PRIMARY_KEY OR OUTPUT_SINGLE_FIELD)
         = f AND NOT (INCLUDE_PRIMARY_KEY OR OUTPUT_SINGLE_FIELD)"
proof -
  have two: "INCLUDE_PRIMARY_KEY = (push_bit 1 1 :: flags)"
    by (simp add: MapperConfig_defs)
  have tt: "OUTPUT_SINGLE_FIELD = (push_bit 5 1 :: flags)"
    by (simp add: MapperConfig_defs)
  show "(f OR INCLUDE_PRIMARY_KEY) AND INCLUDE_PRIMARY_KEY = INCLUDE_PRIMARY_KEY"
    by (rule bit_eqI) (auto simp add: bit_simps)
  show "((f OR INCLUDE_PRIMARY_KEY) AND NOT OUTPUT_SINGLE_FIELD) AND INCLUDE_PRIMARY_KEY
          = INCLUDE_PRIMARY_KEY"
    unfolding two tt by (rule bit_eqI) (auto simp add: bit_simps)
  show "((f OR INCLUDE_PRIMARY_KEY) AND NOT OUTPUT_SINGLE_FIELD) AND OUTPUT_SINGLE_FIELD = 0"
    by (rule bit_eqI) (auto simp add: bit_simps)
  show "(f OR INCLUDE_PRIMARY_KEY) AND NOT INCLUDE_PRIMARY_KEY = f AND NOT INCLUDE_PRIMARY_KEY"
    by (rule bit_eqI) (auto simp add: bit_simps)
  show "((f OR INCLUDE_PRIMARY_KEY) AND NOT OUTPUT_SINGLE_FIELD)
          AND NOT (INCLUDE_PRIMARY_KEY OR OUTPUT_SINGLE_FIELD)
        = f AND NOT (INCLUDE_PRIMARY_KEY OR OUTPUT_SINGLE_FIELD)"
    by (rule bit_eqI) (auto simp add: bit_simps)
qed

text \<open>
  Single-field mode: calls under another key, and calls under the filter's key.
\<close>

lemma single_other_key:
  assumes "should_output_single_field m" and "key \<noteq> field_filter m"
  shows "set_raw m key js = m"
    and "set_field m key attr = (m, attr)"
    and "set_time to_iso8601 m key tattr = (m, tattr)"
    and "set_primary m key pk = (m, pk)"
    and "set_has_one ops m key rel = (m, rel)"
    and "set_has_many ops m key rel = (m, rel)"
  using assms
  by (auto simp add: set_raw_def set_field_def set_time_def set_primary_def
        set_has_one_def set_has_many_def)

lemma single_other_calls:
  assumes "should_output_single_field m"
      and "\<forall>c \<in> set cs. \<exists>k. call_key c = Some k \<and> k \<noteq> field_filter m"
  shows "perform_all to_iso8601 ops cs m = m"
  using assms(2)
proof (induction cs)
  case Nil
  then show ?case by simp
next
  case (Cons c cs)
  then obtain k where k: "call_key c = Some k" "k \<noteq> field_filter m" by auto
  have "perform to_iso8601 ops c m = m"
    using k by (cases c) (simp_all add: single_other_key [OF assms(1)])
  then show ?case using Cons by simp
qed

lemma single_matching_key:
  assumes "should_output_single_field m"
  shows "set_raw m (field_filter m) js = m\<lparr>emitter := emitter m @ [EmitJson js]\<rparr>"
    and "fst (set_field m (field_filter m) attr)
           = m\<lparr>emitter := emitter m @
                 (if should_ignore_dirty_flag m \<or> is_dirty attr
                  then [case cell_value attr of None \<Rightarrow> EmitNull
                        | Some v \<Rightarrow> EmitValue (Native v)]
                  else [])\<rparr>"
    and "fst (set_time to_iso8601 m (field_filter m) tattr)
           = m\<lparr>emitter := emitter m @
                 (if should_ignore_dirty_flag m \<or> is_dirty tattr
                  then [case cell_value tattr of None \<Rightarrow> EmitNull
                        | Some v \<Rightarrow> EmitValue (Text (to_iso8601 v True))]
                  else [])\<rparr>"
    and "fst (set_primary m (field_filter m) pk)
           = m\<lparr>emitter := emitter m @
                 (case cell_value pk of None \<Rightarrow> []
                  | Some v \<Rightarrow> if should_include_primary_key m
                             then [EmitValue (Integer v)] else [])\<rparr>"
    and "fst (set_has_one ops m (field_filter m) rel)
           = m\<lparr>emitter := emitter m @
                 (if should_ignore_dirty_flag m \<or> rel_is_dirty ops rel
                  then [EmitJson (to_json ops rel
                          ((flags m OR INCLUDE_PRIMARY_KEY) AND NOT OUTPUT_SINGLE_FIELD))]
                  else [])\<rparr>"
    and "fst (set_has_many ops m (field_filter m) rel)
           = m\<lparr>emitter := emitter m @
                 (if should_ignore_dirty_flag m \<or> rel_is_dirty ops rel
                  then [EmitJson (to_json ops rel
                          ((flags m OR INCLUDE_PRIMARY_KEY) AND NOT OUTPUT_SINGLE_FIELD))]
                  else [])\<rparr>"
  using assms
  by (auto simp add: set_raw_def set_field_def set_time_def set_primary_def
        set_has_one_def set_has_many_def emit_defs is_null_def field_get_def Let_def
        split: option.splits)

text \<open>
  A single-field session: sets under other keys around one set under the filter's key.
\<close>

lemma set_call_keeps_mode:
  assumes "call_key c = Some k"
  shows "flags (perform fmt ops c m) = flags m"
    and "field_filter (perform fmt ops c m) = field_filter m"
  using assms
  by (cases c; simp add: set_raw_def set_field_def set_time_def set_primary_def
        set_has_one_def set_has_many_def Let_def)+

lemma single_session_output:
  assumes single: "should_output_single_field m"
      and before: "\<forall>c \<in> set cs. \<exists>k. call_key c = Some k \<and> k \<noteq> field_filter m"
      and after: "\<forall>c \<in> set cs'. \<exists>k. call_key c = Some k \<and> k \<noteq> field_filter m"
      and match: "call_key c = Some (field_filter m)"
  shows "fst (dump (perform_all fmt ops cs' (perform fmt ops c (perform_all fmt ops cs m))))
           = emitter (perform fmt ops c m)"
proof -
  let ?m' = "perform fmt ops c m"
  have m: "perform_all fmt ops cs m = m"
    using single_other_calls [OF single before] .
  have single': "should_output_single_field ?m'"
    using single set_call_keeps_mode(1) [OF match, of fmt ops m]
    by (simp add: should_output_single_field_def)
  have filter': "field_filter ?m' = field_filter m"
    using set_call_keeps_mode(2) [OF match] .
  have "perform_all fmt ops cs' ?m' = ?m'"
    using single_other_calls [OF single'] after by (simp add: filter')
  then show ?thesis
    using single' by (simp add: m dump_out)
qed

text \<open>
  No set call, \<open>set_flags\<close> or \<open>set_field_filter\<close> opens or closes the document wrapper.
\<close>

lemma perform_keeps_wrapper:
  "\<exists>body. emitter (perform to_iso8601 ops c m) = emitter m @ body \<and>
          MapOpen \<notin> set body \<and> MapClose \<notin> set body"
proof (cases c)
  case (SetPrimary key pk)
  then show ?thesis
    by (auto simp add: set_primary_def emit_defs Let_def)
qed (auto simp add: set_raw_def set_field_def set_time_def set_has_one_def set_has_many_def
       set_flags_def set_field_filter_def emit_defs Let_def)

lemma perform_all_keeps_wrapper:
  "\<exists>body. emitter (perform_all to_iso8601 ops cs m) = emitter m @ body \<and>
          MapOpen \<notin> set body \<and> MapClose \<notin> set body"
proof (induction cs arbitrary: m)
  case Nil
  show ?case by simp
next
  case (Cons c cs)
  obtain b1 where b1: "emitter (perform to_iso8601 ops c m) = emitter m @ b1"
      "MapOpen \<notin> set b1" "MapClose \<notin> set b1"
    using perform_keeps_wrapper by blast
  obtain b2 where b2: "emitter (perform_all to_iso8601 ops cs (perform to_iso8601 ops c m))
        = emitter (perform to_iso8601 ops c m) @ b2"
      "MapOpen \<notin> set b2" "MapClose \<notin> set b2"
    using Cons.IH by blast
  have "emitter (perform_all to_iso8601 ops (c # cs) m) = emitter m @ (b1 @ b2)"
    using b1(1) b2(1) by simp
  moreover have "MapOpen \<notin> set (b1 @ b2)" "MapClose \<notin> set (b1 @ b2)"
    using b1 b2 by simp_all
  ultimately show ?case by blast
qed

section \<open>Skipping clean cells\<close>

text \<open>
  C1. For every key and every mode bitmask in which ignore-dirty-flag is not set, the
  generic set and the timestamp set on a cell whose dirty flag is false change nothing:
  the mapper, and with it the emitted document, is returned as it was (no key and no
  value are emitted for the field), and so is the cell.
\<close>

theorem set_clean_cell_noop:
  assumes "\<not> should_ignore_dirty_flag m"
  shows "(\<not> is_dirty attr \<longrightarrow> set_field m key attr = (m, attr)) \<and>
         (\<not> is_dirty tattr \<longrightarrow> set_time to_iso8601 m key tattr = (m, tattr))"
  using assms by (simp add: set_field_def set_time_def)

theorem set_clean_cell_noop_witness:
  "\<not> should_ignore_dirty_flag (Mapper 18 :: (unit, nat) mapper) \<and>
   \<not> is_dirty \<lparr>cell_value = Some (5::nat), cell_dirty = False\<rparr> \<and>
   fst (dump (fst (set_field (Mapper 18 :: (unit, nat) mapper) ''age''
                     \<lparr>cell_value = Some (5::nat), cell_dirty = False\<rparr>)))
     = [MapOpen, MapClose]"
proof -
  have h: "\<not> should_ignore_dirty_flag (Mapper 18 :: (unit, nat) mapper)"
    by (simp add: Mapper_def should_defs MapperConfig_defs emit_defs Let_def)
  have d: "\<not> is_dirty \<lparr>cell_value = Some (5::nat), cell_dirty = False\<rparr>"
    by (simp add: is_dirty_def)
  from set_clean_cell_noop [OF h, of "\<lparr>cell_value = Some (5::nat), cell_dirty = False\<rparr>" "''age''"] d
  have "set_field (Mapper 18 :: (unit, nat) mapper) ''age''
          \<lparr>cell_value = Some (5::nat), cell_dirty = False\<rparr>
        = (Mapper 18, \<lparr>cell_value = Some (5::nat), cell_dirty = False\<rparr>)"
    by blast
  then show ?thesis using h d
    by (simp add: dump_def Mapper_def should_defs MapperConfig_defs emit_defs Let_def)
qed

section \<open>Missing fields\<close>

text \<open>
  C2. For every key and every loaded document, each typed get (generic, timestamp,
  primary key) raises an error if and only if the key is absent from the document and
  ignore-missing-fields is not set, and the error is then the field-not-found error
  naming the key. When the key is absent and ignore-missing-fields is set, no error is
  raised and the cell is returned as it was, touched if touch-fields is set: its value
  (and with it its null flag) is unchanged, and without touch-fields the whole cell is.
\<close>

theorem get_not_found_iff:
  "(fst (get_field conv m key attr) \<noteq> None
      \<longleftrightarrow> parser m key = None \<and> \<not> should_ignore_missing_fields m) \<and>
   (fst (get_time to_string parse m key tattr) \<noteq> None
      \<longleftrightarrow> parser m key = None \<and> \<not> should_ignore_missing_fields m) \<and>
   (fst (get_primary to_int m key pk) \<noteq> None
      \<longleftrightarrow> parser m key = None \<and> \<not> should_ignore_missing_fields m) \<and>
   (parser m key = None \<and> \<not> should_ignore_missing_fields m \<longrightarrow>
      fst (get_field conv m key attr) = Some (NotFound key) \<and>
      fst (get_time to_string parse m key tattr) = Some (NotFound key) \<and>
      fst (get_primary to_int m key pk) = Some (NotFound key)) \<and>
   (parser m key = None \<and> should_ignore_missing_fields m \<longrightarrow>
      get_field conv m key attr = (None, if should_touch_fields m then touch attr else attr) \<and>
      get_time to_string parse m key tattr
        = (None, if should_touch_fields m then touch tattr else tattr) \<and>
      get_primary to_int m key pk = (None, if should_touch_fields m then touch pk else pk) \<and>
      cell_value (snd (get_field conv m key attr)) = cell_value attr \<and>
      cell_value (snd (get_time to_string parse m key tattr)) = cell_value tattr \<and>
      cell_value (snd (get_primary to_int m key pk)) = cell_value pk \<and>
      (\<not> should_touch_fields m \<longrightarrow>
         snd (get_field conv m key attr) = attr \<and>
         snd (get_time to_string parse m key tattr) = tattr \<and>
         snd (get_primary to_int m key pk) = pk))"
proof (cases "parser m key")
  case None
  then show ?thesis by (simp add: get_absent touch_def)
next
  case (Some n)
  then show ?thesis by (simp add: get_present)
qed

theorem get_not_found_iff_witness:
  "fst (get_field (\<lambda>n. case n of JNull \<Rightarrow> 0 | JValue v \<Rightarrow> v)
          (Mapper_json (\<lambda>s. [''a'' \<mapsto> JValue (1::int)]) ''doc'' 0 :: (int, int) mapper)
          ''b'' \<lparr>cell_value = Some (7::int), cell_dirty = False\<rparr>)
     = Some (NotFound ''b'') \<and>
   get_field (\<lambda>n. case n of JNull \<Rightarrow> 0 | JValue v \<Rightarrow> v)
     (Mapper_json (\<lambda>s. [''a'' \<mapsto> JValue (1::int)]) ''doc'' IGNORE_MISSING_FIELDS
        :: (int, int) mapper)
     ''b'' \<lparr>cell_value = Some (7::int), cell_dirty = False\<rparr>
     = (None, \<lparr>cell_value = Some (7::int), cell_dirty = False\<rparr>)"
proof -
  let ?conv = "\<lambda>n. case n of JNull \<Rightarrow> 0 | JValue v \<Rightarrow> (v::int)"
  let ?c = "\<lparr>cell_value = Some (7::int), cell_dirty = False\<rparr>"
  let ?m0 = "Mapper_json (\<lambda>s. [''a'' \<mapsto> JValue (1::int)]) ''doc'' 0 :: (int, int) mapper"
  let ?m1 = "Mapper_json (\<lambda>s. [''a'' \<mapsto> JValue (1::int)]) ''doc'' IGNORE_MISSING_FIELDS
               :: (int, int) mapper"
  have h0: "parser ?m0 ''b'' = None \<and> \<not> should_ignore_missing_fields ?m0"
    by (simp add: eval_defs)
  have h1: "parser ?m1 ''b'' = None \<and> should_ignore_missing_fields ?m1"
    by (simp add: eval_defs)
  have t1: "\<not> should_touch_fields ?m1"
    by (simp add: eval_defs)
  have r0: "fst (get_field ?conv ?m0 ''b'' ?c) = Some (NotFound ''b'')"
    using h0 get_not_found_iff [where m = ?m0 and key = "''b''" and conv = ?conv and attr = ?c
        and to_string = "\<lambda>n. []" and parse = "\<lambda>s. 0::int" and tattr = ?c
        and to_int = ?conv and pk = ?c]
    by blast
  have r1: "get_field ?conv ?m1 ''b'' ?c = (None, if should_touch_fields ?m1 then touch ?c else ?c)"
    using h1 get_not_found_iff [where m = ?m1 and key = "''b''" and conv = ?conv and attr = ?c
        and to_string = "\<lambda>n. []" and parse = "\<lambda>s. 0::int" and tattr = ?c
        and to_int = ?conv and pk = ?c]
    by blast
  show ?thesis
    using r0 r1 t1 by simp
qed

section \<open>Single-field projection\<close>

text \<open>
  C3. When output-single-field is set and the filter is \<open>f\<close>: every set (raw, generic,
  timestamp, primary key, has-one, has-many) under a key other than \<open>f\<close> returns the
  mapper and the cell unchanged, and so does any sequence of such sets; a set under the
  key \<open>f\<close> appends no key to the emitter, only the value itself (the raw fragment, the
  cell's value or null, the relation's fragment) when the call passes its own gate
  (dirty or ignore-dirty-flag; include-primary-key and non-null for a primary key), and
  nothing otherwise; a mapper constructed with these flags has emitted nothing, and
  \<open>dump\<close> returns the emitter's content without closing a wrapper. Hence a session of
  sets under other keys around one set under \<open>f\<close>, closed by \<open>dump\<close>, outputs exactly
  what that one set emitted, with no enclosing object.
\<close>

theorem single_field_projection:
  fixes m :: "('j, 'a) mapper"
  assumes single: "should_output_single_field m"
  shows
    "(key \<noteq> field_filter m \<longrightarrow>
        set_raw m key js = m \<and>
        set_field m key attr = (m, attr) \<and>
        set_time fmt m key tattr = (m, tattr) \<and>
        set_primary m key pk = (m, pk) \<and>
        set_has_one ops m key rel = (m, rel) \<and>
        set_has_many ops m key rel = (m, rel)) \<and>
     set_raw m (field_filter m) js = m\<lparr>emitter := emitter m @ [EmitJson js]\<rparr> \<and>
     fst (set_field m (field_filter m) attr)
       = m\<lparr>emitter := emitter m @
             (if should_ignore_dirty_flag m \<or> is_dirty attr
              then [case cell_value attr of None \<Rightarrow> EmitNull
                    | Some v \<Rightarrow> EmitValue (Native v)]
              else [])\<rparr> \<and>
     fst (set_time fmt m (field_filter m) tattr)
       = m\<lparr>emitter := emitter m @
             (if should_ignore_dirty_flag m \<or> is_dirty tattr
              then [case cell_value tattr of None \<Rightarrow> EmitNull
                    | Some v \<Rightarrow> EmitValue (Text (fmt v True))]
              else [])\<rparr> \<and>
     fst (set_primary m (field_filter m) pk)
       = m\<lparr>emitter := emitter m @
             (case cell_value pk of None \<Rightarrow> []
              | Some v \<Rightarrow> if should_include_primary_key m
                         then [EmitValue (Integer v)] else [])\<rparr> \<and>
     fst (set_has_one ops m (field_filter m) rel)
       = m\<lparr>emitter := emitter m @
             (if should_ignore_dirty_flag m \<or> rel_is_dirty ops rel
              then [EmitJson (to_json ops rel
                      ((flags m OR INCLUDE_PRIMARY_KEY) AND NOT OUTPUT_SINGLE_FIELD))]
              else [])\<rparr> \<and>
     fst (set_has_many ops m (field_filter m) rel)
       = m\<lparr>emitter := emitter m @
             (if should_ignore_dirty_flag m \<or> rel_is_dirty ops rel
              then [EmitJson (to_json ops rel
                      ((flags m OR INCLUDE_PRIMARY_KEY) AND NOT OUTPUT_SINGLE_FIELD))]
              else [])\<rparr> \<and>
     ((\<forall>c \<in> set cs. \<exists>k. call_key c = Some k \<and> k \<noteq> field_filter m) \<longrightarrow>
        perform_all fmt ops cs m = m) \<and>
     ((\<forall>c \<in> set cs. \<exists>k. call_key c = Some k \<and> k \<noteq> field_filter m) \<and>
      (\<forall>c \<in> set cs'. \<exists>k. call_key c = Some k \<and> k \<noteq> field_filter m) \<and>
      call_key c = Some (field_filter m) \<longrightarrow>
        fst (dump (perform_all fmt ops cs' (perform fmt ops c (perform_all fmt ops cs m))))
          = emitter (perform fmt ops c m)) \<and>
     emitter (Mapper (flags m) :: ('j, 'a) mapper) = [] \<and>
     emitter (Mapper_json load js (flags m) :: ('j, 'a) mapper) = [] \<and>
     dump m = (emitter m, m)"
proof -
  have other: "key \<noteq> field_filter m \<longrightarrow>
        set_raw m key js = m \<and>
        set_field m key attr = (m, attr) \<and>
        set_time fmt m key tattr = (m, tattr) \<and>
        set_primary m key pk = (m, pk) \<and>
        set_has_one ops m key rel = (m, rel) \<and>
        set_has_many ops m key rel = (m, rel)"
    by (simp add: single_other_key [OF single])
  have calls: "(\<forall>c \<in> set cs. \<exists>k. call_key c = Some k \<and> k \<noteq> field_filter m) \<longrightarrow>
        perform_all fmt ops cs m = m"
    using single_other_calls [OF single] by blast
  have session: "(\<forall>c \<in> set cs. \<exists>k. call_key c = Some k \<and> k \<noteq> field_filter m) \<and>
      (\<forall>c \<in> set cs'. \<exists>k. call_key c = Some k \<and> k \<noteq> field_filter m) \<and>
      call_key c = Some (field_filter m) \<longrightarrow>
        fst (dump (perform_all fmt ops cs' (perform fmt ops c (perform_all fmt ops cs m))))
          = emitter (perform fmt ops c m)"
    using single_session_output [OF single] by blast
  have ctor: "emitter (Mapper (flags m) :: ('j, 'a) mapper) = []"
     "emitter (Mapper_json load js (flags m) :: ('j, 'a) mapper) = []"
    using single by (simp_all add: constructed should_output_single_field_def)
  have d: "dump m = (emitter m, m)"
    using single by (simp add: dump_def emit_defs)
  show ?thesis
    using other calls session ctor d
    by (simp only: single_matching_key [OF single] simp_thms)
qed

theorem single_field_projection_witness:
  "should_output_single_field
     (set_field_filter ''name'' (Mapper OUTPUT_SINGLE_FIELD :: (unit, nat) mapper)) \<and>
   fst (dump (perform_all (\<lambda>(t::nat) b. [])
     \<lparr>from_json = (\<lambda>frag fl r. r), to_json = (\<lambda>r fl. []),
      rel_is_dirty = (\<lambda>r. True), rel_clean = (\<lambda>r::unit. r)\<rparr>
     [SetField ''name'' \<lparr>cell_value = Some 7, cell_dirty = True\<rparr>,
      SetField ''age'' \<lparr>cell_value = Some 30, cell_dirty = True\<rparr>]
     (set_field_filter ''name'' (Mapper OUTPUT_SINGLE_FIELD :: (unit, nat) mapper))))
   = [EmitValue (Native 7)]"
proof -
  let ?m = "set_field_filter ''name'' (Mapper OUTPUT_SINGLE_FIELD :: (unit, nat) mapper)"
  let ?name = "\<lparr>cell_value = Some (7::nat), cell_dirty = True\<rparr>"
  let ?age = "\<lparr>cell_value = Some (30::nat), cell_dirty = True\<rparr>"
  let ?fmt = "\<lambda>(t::nat) (b::bool). ([]::string)"
  let ?ops = "\<lparr>from_json = (\<lambda>frag fl r. r), to_json = (\<lambda>r fl. []),
               rel_is_dirty = (\<lambda>r. True), rel_clean = (\<lambda>r::unit. r)\<rparr>"
  let ?c = "SetField ''name'' ?name :: (nat, nat, unit) call"
  let ?cs' = "[SetField ''age'' ?age] :: (nat, nat, unit) call list"
  have s: "should_output_single_field ?m"
    by (simp add: eval_defs)
  have f: "field_filter ?m = ''name''" "emitter ?m = []" "is_dirty ?name"
    by (simp_all add: eval_defs)
  note T = single_field_projection [OF s, where key = "''age''" and js = "[]" and attr = ?name
      and fmt = ?fmt and tattr = ?age and pk = "\<lparr>cell_value = None, cell_dirty = False\<rparr>"
      and ops = ?ops and rel = "()" and cs = "[]" and cs' = ?cs' and c = ?c
      and load = "\<lambda>s. Map.empty"]
  have keys: "(\<forall>c \<in> set ([] :: (nat, nat, unit) call list).
                 \<exists>k. call_key c = Some k \<and> k \<noteq> field_filter ?m) \<and>
              (\<forall>c \<in> set ?cs'. \<exists>k. call_key c = Some k \<and> k \<noteq> field_filter ?m) \<and>
              call_key ?c = Some (field_filter ?m)"
    by (simp add: f)
  have out: "fst (dump (perform_all ?fmt ?ops ?cs' (perform ?fmt ?ops ?c (perform_all ?fmt ?ops [] ?m))))
               = emitter (perform ?fmt ?ops ?c ?m)"
    using T keys by blast
  have "fst (set_field ?m (field_filter ?m) ?name)
           = ?m\<lparr>emitter := emitter ?m @
                 (if should_ignore_dirty_flag ?m \<or> is_dirty ?name
                  then [case cell_value ?name of None \<Rightarrow> EmitNull
                        | Some v \<Rightarrow> EmitValue (Native v)]
                  else [])\<rparr>"
    using T by blast
  then have first: "emitter (fst (set_field ?m ''name'' ?name)) = [EmitValue (Native 7)]"
    by (simp add: f)
  show ?thesis
    using s out first by simp
qed

section \<open>Primary keys\<close>

text \<open>
  C4. The primary-key set changes nothing but the emitter. It emits exactly when
  include-primary-key is set, the cell is non-null and the single-field filter lets the
  key pass; what it emits is the key followed by the integer value (in single-field mode
  the value alone). In every other case nothing is emitted. The cell's dirty flag does
  not influence the result.
\<close>

theorem primary_key_emission:
  "fst (set_primary m key pk) =
     m\<lparr>emitter := emitter m @
         (if should_include_primary_key m \<and> \<not> is_null pk
             \<and> (should_output_single_field m \<longrightarrow> field_filter m = key)
          then (if should_output_single_field m then [] else [EmitKey key])
                 @ [EmitValue (Integer (field_get pk))]
          else [])\<rparr> \<and>
   fst (set_primary m key (pk\<lparr>cell_dirty := d\<rparr>)) = fst (set_primary m key pk)"
  by (cases "cell_value pk")
    (auto simp add: set_primary_def is_null_def field_get_def emit_defs Let_def)

theorem primary_key_emission_witness:
  "fst (dump (fst (set_primary (Mapper INCLUDE_PRIMARY_KEY :: (unit, unit) mapper) ''id''
                     \<lparr>cell_value = Some 42, cell_dirty = False\<rparr>)))
     = [MapOpen, EmitKey ''id'', EmitValue (Integer 42), MapClose] \<and>
   fst (dump (fst (set_primary (Mapper 0 :: (unit, unit) mapper) ''id''
                     \<lparr>cell_value = Some 42, cell_dirty = True\<rparr>)))
     = [MapOpen, MapClose]"
  using
    primary_key_emission [of "Mapper INCLUDE_PRIMARY_KEY :: (unit, unit) mapper" "''id''"
      "\<lparr>cell_value = Some 42, cell_dirty = False\<rparr>" False]
    primary_key_emission [of "Mapper 0 :: (unit, unit) mapper" "''id''"
      "\<lparr>cell_value = Some 42, cell_dirty = True\<rparr>" True]
  by (simp add: eval_defs)

text \<open>
  Against C6 as stated: with include-primary-key and keep-fields-dirty both set, a
  non-null dirty primary key is written (key and value are emitted) and the cell is still
  dirty afterwards.
\<close>

theorem primary_key_stays_dirty_counterexample:
  "should_include_primary_key (Mapper (INCLUDE_PRIMARY_KEY OR KEEP_FIELDS_DIRTY)
     :: (unit, unit) mapper) \<and>
   \<not> is_null \<lparr>cell_value = Some (42::int), cell_dirty = True\<rparr> \<and>
   emitter (fst (set_primary (Mapper (INCLUDE_PRIMARY_KEY OR KEEP_FIELDS_DIRTY)
     :: (unit, unit) mapper) ''id'' \<lparr>cell_value = Some 42, cell_dirty = True\<rparr>))
     = [MapOpen, EmitKey ''id'', EmitValue (Integer 42)] \<and>
   is_dirty (snd (set_primary (Mapper (INCLUDE_PRIMARY_KEY OR KEEP_FIELDS_DIRTY)
     :: (unit, unit) mapper) ''id'' \<lparr>cell_value = Some 42, cell_dirty = True\<rparr>))"
  by (simp add: set_primary_def eval_defs)

text \<open>
  C6 (amended). When the primary-key set writes the cell (include-primary-key set, cell
  non-null, key let through by the single-field filter), the cell's dirty flag is cleared
  unless keep-fields-dirty is set; with keep-fields-dirty set the cell is left as it was.
\<close>

theorem primary_key_clean_respects_keep_dirty:
  assumes "should_include_primary_key m" and "\<not> is_null pk"
      and "should_output_single_field m \<longrightarrow> field_filter m = key"
  shows "snd (set_primary m key pk) = (if should_keep_fields_dirty m then pk else clean pk) \<and>
         is_dirty (snd (set_primary m key pk)) = (should_keep_fields_dirty m \<and> is_dirty pk)"
  using assms
  by (cases "cell_value pk") (auto simp add: set_primary_def field_defs Let_def)

theorem primary_key_clean_respects_keep_dirty_witness:
  "should_include_primary_key (Mapper INCLUDE_PRIMARY_KEY :: (unit, unit) mapper) \<and>
   \<not> is_null \<lparr>cell_value = Some (42::int), cell_dirty = True\<rparr> \<and>
   \<not> should_output_single_field (Mapper INCLUDE_PRIMARY_KEY :: (unit, unit) mapper) \<and>
   \<not> is_dirty (snd (set_primary (Mapper INCLUDE_PRIMARY_KEY :: (unit, unit) mapper) ''id''
                      \<lparr>cell_value = Some 42, cell_dirty = True\<rparr>))"
proof -
  have a: "should_include_primary_key (Mapper INCLUDE_PRIMARY_KEY :: (unit, unit) mapper)"
    by (simp add: eval_defs)
  have b: "\<not> is_null \<lparr>cell_value = Some (42::int), cell_dirty = True\<rparr>"
    by (simp add: eval_defs)
  have c: "\<not> should_output_single_field (Mapper INCLUDE_PRIMARY_KEY :: (unit, unit) mapper)"
    by (simp add: eval_defs)
  from c have c': "should_output_single_field (Mapper INCLUDE_PRIMARY_KEY :: (unit, unit) mapper)
                     \<longrightarrow> field_filter (Mapper INCLUDE_PRIMARY_KEY :: (unit, unit) mapper) = ''id''"
    by simp
  show ?thesis
    using a b c primary_key_clean_respects_keep_dirty [OF a b c']
    by (simp add: eval_defs)
qed

section \<open>Relations\<close>

text \<open>
  C5. When the relation get is not skipped, the container (has-one and has-many alike)
  is hydrated from the raw fragment under the parent's bitmask with include-primary-key
  forced on. When the relation set is not skipped, the fragment spliced in by the raw set
  is the container serialized under the parent's bitmask with include-primary-key forced
  on and output-single-field forced off. Both propagated bitmasks have the
  include-primary-key bit set whatever the parent's bitmask, the second has the
  output-single-field bit clear, and on all other bits they agree with the parent's.
\<close>

theorem relation_flag_propagation:
  "(\<not> parser_empty node_empty (parser m) key \<longrightarrow>
      get_has_one node_empty node_dump ops m key rel
        = (None, from_json ops (node_dump (the (parser m key)))
                   (flags m OR INCLUDE_PRIMARY_KEY) rel) \<and>
      get_has_many node_empty node_dump ops m key rel
        = (None, from_json ops (node_dump (the (parser m key)))
                   (flags m OR INCLUDE_PRIMARY_KEY) rel)) \<and>
   ((should_output_single_field m \<longrightarrow> field_filter m = key) \<and>
    (should_ignore_dirty_flag m \<or> rel_is_dirty ops rel) \<longrightarrow>
      fst (set_has_one ops m key rel)
        = set_raw m key
            (to_json ops rel ((flags m OR INCLUDE_PRIMARY_KEY) AND NOT OUTPUT_SINGLE_FIELD)) \<and>
      fst (set_has_many ops m key rel)
        = set_raw m key
            (to_json ops rel ((flags m OR INCLUDE_PRIMARY_KEY) AND NOT OUTPUT_SINGLE_FIELD))) \<and>
   (flags m OR INCLUDE_PRIMARY_KEY) AND INCLUDE_PRIMARY_KEY = INCLUDE_PRIMARY_KEY \<and>
   (flags m OR INCLUDE_PRIMARY_KEY) AND NOT INCLUDE_PRIMARY_KEY
     = flags m AND NOT INCLUDE_PRIMARY_KEY \<and>
   ((flags m OR INCLUDE_PRIMARY_KEY) AND NOT OUTPUT_SINGLE_FIELD) AND INCLUDE_PRIMARY_KEY
     = INCLUDE_PRIMARY_KEY \<and>
   ((flags m OR INCLUDE_PRIMARY_KEY) AND NOT OUTPUT_SINGLE_FIELD) AND OUTPUT_SINGLE_FIELD = 0 \<and>
   ((flags m OR INCLUDE_PRIMARY_KEY) AND NOT OUTPUT_SINGLE_FIELD)
      AND NOT (INCLUDE_PRIMARY_KEY OR OUTPUT_SINGLE_FIELD)
     = flags m AND NOT (INCLUDE_PRIMARY_KEY OR OUTPUT_SINGLE_FIELD)"
proof -
  have g: "\<not> parser_empty node_empty (parser m) key \<longrightarrow>
      get_has_one node_empty node_dump ops m key rel
        = (None, from_json ops (node_dump (the (parser m key)))
                   (flags m OR INCLUDE_PRIMARY_KEY) rel) \<and>
      get_has_many node_empty node_dump ops m key rel
        = (None, from_json ops (node_dump (the (parser m key)))
                   (flags m OR INCLUDE_PRIMARY_KEY) rel)"
  proof (cases "parser m key")
    case None
    then show ?thesis by (simp add: parser_empty_def)
  next
    case (Some n)
    then show ?thesis
      by (simp add: get_has_one_def get_has_many_def get_raw_present)
  qed
  have s: "(should_output_single_field m \<longrightarrow> field_filter m = key) \<and>
    (should_ignore_dirty_flag m \<or> rel_is_dirty ops rel) \<longrightarrow>
      fst (set_has_one ops m key rel)
        = set_raw m key
            (to_json ops rel ((flags m OR INCLUDE_PRIMARY_KEY) AND NOT OUTPUT_SINGLE_FIELD)) \<and>
      fst (set_has_many ops m key rel)
        = set_raw m key
            (to_json ops rel ((flags m OR INCLUDE_PRIMARY_KEY) AND NOT OUTPUT_SINGLE_FIELD))"
    by (auto simp add: set_has_one_def set_has_many_def)
  show ?thesis
    using g s propagated_bits [of "flags m"] by blast
qed

theorem relation_flag_propagation_witness:
  "get_has_one node_is_null (\<lambda>n. ''frag'')
     \<lparr>from_json = (\<lambda>frag fl r. r @ [(frag, fl)]),
      to_json = (\<lambda>r fl. if fl = INCLUDE_PRIMARY_KEY then ''key on, single off'' else ''other''),
      rel_is_dirty = (\<lambda>r. True), rel_clean = (\<lambda>r. r)\<rparr>
     (Mapper_json (\<lambda>s. [''owner'' \<mapsto> JValue ()]) ''doc'' 0 :: (unit, unit) mapper)
     ''owner'' []
   = (None, [(''frag'', INCLUDE_PRIMARY_KEY)]) \<and>
   emitter (fst (set_has_one
     \<lparr>from_json = (\<lambda>frag fl r. r @ [(frag, fl)]),
      to_json = (\<lambda>r fl. if fl = INCLUDE_PRIMARY_KEY then ''key on, single off'' else ''other''),
      rel_is_dirty = (\<lambda>r. True), rel_clean = (\<lambda>r. r)\<rparr>
     (set_field_filter ''owner'' (Mapper OUTPUT_SINGLE_FIELD :: (unit, unit) mapper))
     ''owner'' []))
   = [EmitJson ''key on, single off'']"
  using
    relation_flag_propagation [where node_empty = node_is_null and node_dump = "\<lambda>n. ''frag''"
      and ops = "\<lparr>from_json = (\<lambda>frag fl r. r @ [(frag, fl)]),
        to_json = (\<lambda>r fl. if fl = INCLUDE_PRIMARY_KEY then ''key on, single off'' else ''other''),
        rel_is_dirty = (\<lambda>r. True), rel_clean = (\<lambda>r. r)\<rparr>"
      and m = "Mapper_json (\<lambda>s. [''owner'' \<mapsto> JValue ()]) ''doc'' 0 :: (unit, unit) mapper"
      and key = "''owner''" and rel = "[]"]
    relation_flag_propagation [where node_empty = node_is_null and node_dump = "\<lambda>n. ''frag''"
      and ops = "\<lparr>from_json = (\<lambda>frag fl r. r @ [(frag, fl)]),
        to_json = (\<lambda>r fl. if fl = INCLUDE_PRIMARY_KEY then ''key on, single off'' else ''other''),
        rel_is_dirty = (\<lambda>r. True), rel_clean = (\<lambda>r. r)\<rparr>"
      and m = "set_field_filter ''owner'' (Mapper OUTPUT_SINGLE_FIELD :: (unit, unit) mapper)"
      and key = "''owner''" and rel = "[]"]
  by (simp add: eval_defs parser_empty_def set_raw_def)

section \<open>Touching fields\<close>

text \<open>
  Against C7 as stated: with touch-fields set and ignore-missing-fields not set, a get
  for a key absent from the document raises field-not-found before the touch is reached,
  and the clean cell is still clean.
\<close>

theorem touch_skipped_on_not_found_counterexample:
  "should_touch_fields
     (Mapper_json (\<lambda>s. [''a'' \<mapsto> JValue (1::int)]) ''doc'' TOUCH_FIELDS :: (int, int) mapper) \<and>
   get_field (\<lambda>n. case n of JNull \<Rightarrow> 0 | JValue v \<Rightarrow> v)
     (Mapper_json (\<lambda>s. [''a'' \<mapsto> JValue (1::int)]) ''doc'' TOUCH_FIELDS :: (int, int) mapper)
     ''b'' \<lparr>cell_value = Some (7::int), cell_dirty = False\<rparr>
     = (Some (NotFound ''b''), \<lparr>cell_value = Some 7, cell_dirty = False\<rparr>) \<and>
   \<not> is_dirty (snd (get_field (\<lambda>n. case n of JNull \<Rightarrow> 0 | JValue v \<Rightarrow> v)
     (Mapper_json (\<lambda>s. [''a'' \<mapsto> JValue (1::int)]) ''doc'' TOUCH_FIELDS :: (int, int) mapper)
     ''b'' \<lparr>cell_value = Some (7::int), cell_dirty = False\<rparr>))"
  by (simp add: get_field_def parser_exists_def not_found_def eval_defs)

text \<open>
  C7 (amended). For every key, document and bitmask with touch-fields set, a typed get
  (generic, timestamp, primary key) that returns without error leaves the cell dirty:
  that is the case when the key is present (null or not) and when it is absent and
  ignore-missing-fields is set. When the key is absent and ignore-missing-fields is not
  set, the get raises field-not-found and the cell is left unchanged.
\<close>

theorem touch_after_successful_get:
  assumes "should_touch_fields m"
  shows "(parser m key \<noteq> None \<or> should_ignore_missing_fields m \<longrightarrow>
            fst (get_field conv m key attr) = None \<and>
            is_dirty (snd (get_field conv m key attr)) \<and>
            fst (get_time to_string parse m key tattr) = None \<and>
            is_dirty (snd (get_time to_string parse m key tattr)) \<and>
            fst (get_primary to_int m key pk) = None \<and>
            is_dirty (snd (get_primary to_int m key pk))) \<and>
         (parser m key = None \<and> \<not> should_ignore_missing_fields m \<longrightarrow>
            get_field conv m key attr = (Some (NotFound key), attr) \<and>
            get_time to_string parse m key tattr = (Some (NotFound key), tattr) \<and>
            get_primary to_int m key pk = (Some (NotFound key), pk))"
proof (cases "parser m key")
  case None
  then show ?thesis using assms by (simp add: get_absent touch_def is_dirty_def)
next
  case (Some n)
  then show ?thesis using assms by (simp add: get_present touch_def is_dirty_def Let_def)
qed

theorem touch_after_successful_get_witness:
  "should_touch_fields
     (Mapper_json (\<lambda>s. [''a'' \<mapsto> JValue (1::int)]) ''doc'' TOUCH_FIELDS :: (int, int) mapper) \<and>
   get_field (\<lambda>n. case n of JNull \<Rightarrow> 0 | JValue v \<Rightarrow> v)
     (Mapper_json (\<lambda>s. [''a'' \<mapsto> JValue (1::int)]) ''doc'' TOUCH_FIELDS :: (int, int) mapper)
     ''a'' \<lparr>cell_value = None, cell_dirty = False\<rparr>
     = (None, \<lparr>cell_value = Some 1, cell_dirty = True\<rparr>)"
proof -
  let ?m = "Mapper_json (\<lambda>s. [''a'' \<mapsto> JValue (1::int)]) ''doc'' TOUCH_FIELDS :: (int, int) mapper"
  have t: "should_touch_fields ?m"
    by (simp add: eval_defs)
  show ?thesis
    using t touch_after_successful_get [OF t, where key = "''a''"
        and conv = "\<lambda>n. case n of JNull \<Rightarrow> 0 | JValue v \<Rightarrow> v"
        and attr = "\<lparr>cell_value = None, cell_dirty = False\<rparr>"]
    by (simp add: get_field_def parser_exists_def parser_find_def eval_defs)
qed

section \<open>Round trip of null\<close>

text \<open>
  Against C8 as stated: with \<open>F\<close> bound to null and ignore-dirty-flag set, a mapper in
  single-field mode emits nothing for \<open>F\<close> when the filter is another key, and the null
  value alone, bound to no key, when the filter is \<open>F\<close>; and a primary-key cell cleared
  by its get is skipped by the primary-key set even with include-primary-key set.
\<close>

theorem null_round_trip_counterexample:
  "parser (Mapper_json (\<lambda>s. [''F'' \<mapsto> JNull]) ''doc'' (IGNORE_DIRTY_FLAG OR OUTPUT_SINGLE_FIELD)
             :: (int, int) mapper) ''F'' = Some JNull \<and>
   should_ignore_dirty_flag
     (set_field_filter ''G''
        (Mapper_json (\<lambda>s. [''F'' \<mapsto> JNull]) ''doc'' (IGNORE_DIRTY_FLAG OR OUTPUT_SINGLE_FIELD)
           :: (int, int) mapper)) \<and>
   fst (dump (fst (set_field
     (set_field_filter ''G''
        (Mapper_json (\<lambda>s. [''F'' \<mapsto> JNull]) ''doc'' (IGNORE_DIRTY_FLAG OR OUTPUT_SINGLE_FIELD)
           :: (int, int) mapper)) ''F''
     (snd (get_field (\<lambda>n. case n of JNull \<Rightarrow> 0 | JValue v \<Rightarrow> v)
        (Mapper_json (\<lambda>s. [''F'' \<mapsto> JNull]) ''doc'' (IGNORE_DIRTY_FLAG OR OUTPUT_SINGLE_FIELD)
           :: (int, int) mapper) ''F''
        \<lparr>cell_value = Some 7, cell_dirty = False\<rparr>))))) = [] \<and>
   fst (dump (fst (set_field
     (set_field_filter ''F''
        (Mapper_json (\<lambda>s. [''F'' \<mapsto> JNull]) ''doc'' (IGNORE_DIRTY_FLAG OR OUTPUT_SINGLE_FIELD)
           :: (int, int) mapper)) ''F''
     (snd (get_field (\<lambda>n. case n of JNull \<Rightarrow> 0 | JValue v \<Rightarrow> v)
        (Mapper_json (\<lambda>s. [''F'' \<mapsto> JNull]) ''doc'' (IGNORE_DIRTY_FLAG OR OUTPUT_SINGLE_FIELD)
           :: (int, int) mapper) ''F''
        \<lparr>cell_value = Some 7, cell_dirty = False\<rparr>))))) = [EmitNull] \<and>
   should_ignore_dirty_flag
     (Mapper_json (\<lambda>s. [''F'' \<mapsto> JNull]) ''doc'' (IGNORE_DIRTY_FLAG OR INCLUDE_PRIMARY_KEY)
        :: (int, int) mapper) \<and>
   fst (dump (fst (set_primary
     (Mapper_json (\<lambda>s. [''F'' \<mapsto> JNull]) ''doc'' (IGNORE_DIRTY_FLAG OR INCLUDE_PRIMARY_KEY)
        :: (int, int) mapper) ''F''
     (snd (get_primary (\<lambda>n. case n of JNull \<Rightarrow> 0 | JValue v \<Rightarrow> v)
        (Mapper_json (\<lambda>s. [''F'' \<mapsto> JNull]) ''doc'' (IGNORE_DIRTY_FLAG OR INCLUDE_PRIMARY_KEY)
           :: (int, int) mapper) ''F''
        \<lparr>cell_value = Some 7, cell_dirty = False\<rparr>))))) = [MapOpen, MapClose]"
  by (simp add: get_field_def get_primary_def set_field_def set_primary_def parser_exists_def
        parser_find_def eval_defs)

text \<open>
  C8 (amended). If the key \<open>F\<close> is bound to JSON null in the loaded document, each typed
  get (generic, timestamp, primary key) returns without error and leaves the cell null
  and dirty. Setting that cell under \<open>F\<close> on a mapper with ignore-dirty-flag set changes
  nothing but the emitter: a generic or timestamp set outside single-field mode appends
  the key \<open>F\<close> followed by null; in single-field mode it appends null alone when \<open>F\<close> is
  the filter and nothing otherwise. The primary-key set emits nothing for the null cell
  and leaves mapper and cell as they were.
\<close>

theorem null_round_trip:
  assumes null: "parser mr key = Some JNull"
      and ign: "should_ignore_dirty_flag mw"
  shows "fst (get_field conv mr key attr) = None \<and>
         is_null (snd (get_field conv mr key attr)) \<and>
         is_dirty (snd (get_field conv mr key attr)) \<and>
         fst (set_field mw key (snd (get_field conv mr key attr)))
           = mw\<lparr>emitter := emitter mw @
                 (if should_output_single_field mw
                  then (if field_filter mw = key then [EmitNull] else [])
                  else [EmitKey key, EmitNull])\<rparr> \<and>
         fst (get_time to_string parse mr key tattr) = None \<and>
         is_null (snd (get_time to_string parse mr key tattr)) \<and>
         is_dirty (snd (get_time to_string parse mr key tattr)) \<and>
         fst (set_time fmt mw key (snd (get_time to_string parse mr key tattr)))
           = mw\<lparr>emitter := emitter mw @
                 (if should_output_single_field mw
                  then (if field_filter mw = key then [EmitNull] else [])
                  else [EmitKey key, EmitNull])\<rparr> \<and>
         fst (get_primary to_int mr key pk) = None \<and>
         is_null (snd (get_primary to_int mr key pk)) \<and>
         is_dirty (snd (get_primary to_int mr key pk)) \<and>
         set_primary mw key (snd (get_primary to_int mr key pk))
           = (mw, snd (get_primary to_int mr key pk))"
  using ign
  by (simp add: get_present [OF null] set_field_def set_time_def set_primary_def field_defs
        emit_defs Let_def)

theorem null_round_trip_witness:
  "parser (Mapper_json (\<lambda>s. [''F'' \<mapsto> JNull]) ''doc'' IGNORE_DIRTY_FLAG :: (int, int) mapper) ''F''
     = Some JNull \<and>
   should_ignore_dirty_flag
     (Mapper_json (\<lambda>s. [''F'' \<mapsto> JNull]) ''doc'' IGNORE_DIRTY_FLAG :: (int, int) mapper) \<and>
   fst (dump (fst (set_field
     (Mapper_json (\<lambda>s. [''F'' \<mapsto> JNull]) ''doc'' IGNORE_DIRTY_FLAG :: (int, int) mapper) ''F''
     (snd (get_field (\<lambda>n. case n of JNull \<Rightarrow> 0 | JValue v \<Rightarrow> v)
        (Mapper_json (\<lambda>s. [''F'' \<mapsto> JNull]) ''doc'' IGNORE_DIRTY_FLAG :: (int, int) mapper) ''F''
        \<lparr>cell_value = Some 7, cell_dirty = False\<rparr>)))))
     = [MapOpen, EmitKey ''F'', EmitNull, MapClose]"
proof -
  let ?m = "Mapper_json (\<lambda>s. [''F'' \<mapsto> JNull]) ''doc'' IGNORE_DIRTY_FLAG :: (int, int) mapper"
  let ?conv = "\<lambda>n. case n of JNull \<Rightarrow> 0 | JValue v \<Rightarrow> (v::int)"
  let ?c = "\<lparr>cell_value = Some (7::int), cell_dirty = False\<rparr>"
  have a: "parser ?m ''F'' = Some JNull"
    by (simp add: eval_defs)
  have b: "should_ignore_dirty_flag ?m"
    by (simp add: eval_defs)
  have c: "\<not> should_output_single_field ?m"
    by (simp add: eval_defs)
  have "fst (set_field ?m ''F'' (snd (get_field ?conv ?m ''F'' ?c)))
          = ?m\<lparr>emitter := emitter ?m @
                (if should_output_single_field ?m
                 then (if field_filter ?m = ''F'' then [EmitNull] else [])
                 else [EmitKey ''F'', EmitNull])\<rparr>"
    using null_round_trip [OF a b, where conv = ?conv and attr = ?c
        and to_string = "\<lambda>n. []" and parse = "\<lambda>s. 0::int" and tattr = ?c
        and fmt = "\<lambda>(t::int) b. []" and to_int = ?conv and pk = ?c]
    by blast
  then have "fst (dump (fst (set_field ?m ''F'' (snd (get_field ?conv ?m ''F'' ?c)))))
               = [MapOpen, EmitKey ''F'', EmitNull, MapClose]"
    by (simp add: eval_defs)
  then show ?thesis
    using a b by simp
qed

section \<open>Opening and closing the document\<close>

text \<open>
  Against C9 as stated: \<open>set_flags\<close> between construction and \<open>dump\<close> can switch
  single-field mode on, which leaves the opened wrapper unclosed, or off, which closes a
  wrapper that was never opened.
\<close>

theorem wrapper_unpaired_counterexample:
  "fst (dump (set_flags OUTPUT_SINGLE_FIELD (Mapper 0 :: (unit, unit) mapper))) = [MapOpen] \<and>
   fst (dump (set_flags 0 (Mapper OUTPUT_SINGLE_FIELD :: (unit, unit) mapper))) = [MapClose]"
  by (simp add: eval_defs)

text \<open>
  C9 (amended). For a mapper built by either constructor and dumped once after any
  sequence of set, \<open>set_flags\<close> and \<open>set_field_filter\<close> calls, the body emitted in
  between contains neither a map-open nor a map-close. If the output-single-field bit at
  the time of \<open>dump\<close> is the one the mapper was constructed with, the output is one
  map-open, the body and one map-close, or the body alone in single-field mode. If the
  bit has changed, the output is the body followed by a map-close that was never opened
  (constructed in single-field mode), or a map-open followed by the body and never closed
  (constructed outside it). So map-open and map-close are paired exactly when the bit at
  \<open>dump\<close> equals the bit at construction.
\<close>

theorem wrapper_paired_iff_mode_kept:
  fixes mc :: "('j, 'a) mapper"
  assumes ctor: "mc = Mapper fl \<or> mc = Mapper_json load js fl"
  shows "(\<exists>body. MapOpen \<notin> set body \<and> MapClose \<notin> set body \<and>
            fst (dump (perform_all fmt ops cs mc))
              = (if should_output_single_field (perform_all fmt ops cs mc)
                    = should_output_single_field mc
                 then (if should_output_single_field mc then body
                       else MapOpen # body @ [MapClose])
                 else (if should_output_single_field mc then body @ [MapClose]
                       else MapOpen # body))) \<and>
         (count_list (fst (dump (perform_all fmt ops cs mc))) MapOpen
            = count_list (fst (dump (perform_all fmt ops cs mc))) MapClose
          \<longleftrightarrow> should_output_single_field (perform_all fmt ops cs mc)
                = should_output_single_field mc)"
proof -
  let ?out = "fst (dump (perform_all fmt ops cs mc))"
  obtain body where body: "emitter (perform_all fmt ops cs mc) = emitter mc @ body"
      "MapOpen \<notin> set body" "MapClose \<notin> set body"
    using perform_all_keeps_wrapper by blast
  have start: "emitter mc = (if should_output_single_field mc then [] else [MapOpen])"
    using ctor by (auto simp add: constructed should_output_single_field_def)
  have out: "?out = (if should_output_single_field mc then [] else [MapOpen]) @ body
                      @ (if should_output_single_field (perform_all fmt ops cs mc)
                         then [] else [MapClose])"
    by (simp add: dump_out body(1) start)
  have shape: "?out
              = (if should_output_single_field (perform_all fmt ops cs mc)
                    = should_output_single_field mc
                 then (if should_output_single_field mc then body
                       else MapOpen # body @ [MapClose])
                 else (if should_output_single_field mc then body @ [MapClose]
                       else MapOpen # body))"
    by (simp add: out)
  have counts: "count_list ?out MapOpen = count_list ?out MapClose
          \<longleftrightarrow> should_output_single_field (perform_all fmt ops cs mc)
                = should_output_single_field mc"
    using body(2,3) by (simp add: out)
  show ?thesis
    using shape counts body(2,3) by blast
qed

theorem wrapper_paired_iff_mode_kept_witness:
  "should_output_single_field
     (perform_all (\<lambda>(t::nat) b. [])
        \<lparr>from_json = (\<lambda>frag fl r. r), to_json = (\<lambda>r fl. []),
         rel_is_dirty = (\<lambda>r. True), rel_clean = (\<lambda>r::unit. r)\<rparr>
        [SetField ''a'' \<lparr>cell_value = Some (1::nat), cell_dirty = True\<rparr>,
         SetFlags KEEP_FIELDS_DIRTY,
         SetRaw ''b'' ''{}'']
        (Mapper 0 :: (unit, nat) mapper))
     = should_output_single_field (Mapper 0 :: (unit, nat) mapper) \<and>
   fst (dump
     (perform_all (\<lambda>(t::nat) b. [])
        \<lparr>from_json = (\<lambda>frag fl r. r), to_json = (\<lambda>r fl. []),
         rel_is_dirty = (\<lambda>r. True), rel_clean = (\<lambda>r::unit. r)\<rparr>
        [SetField ''a'' \<lparr>cell_value = Some (1::nat), cell_dirty = True\<rparr>,
         SetFlags KEEP_FIELDS_DIRTY,
         SetRaw ''b'' ''{}'']
        (Mapper 0 :: (unit, nat) mapper)))
     = [MapOpen, EmitKey ''a'', EmitValue (Native 1), EmitKey ''b'', EmitJson ''{}'', MapClose] \<and>
   count_list (fst (dump
     (perform_all (\<lambda>(t::nat) b. [])
        \<lparr>from_json = (\<lambda>frag fl r. r), to_json = (\<lambda>r fl. []),
         rel_is_dirty = (\<lambda>r. True), rel_clean = (\<lambda>r::unit. r)\<rparr>
        [SetFlags OUTPUT_SINGLE_FIELD]
        (Mapper 0 :: (unit, nat) mapper)))) MapOpen
     \<noteq> count_list (fst (dump
     (perform_all (\<lambda>(t::nat) b. [])
        \<lparr>from_json = (\<lambda>frag fl r. r), to_json = (\<lambda>r fl. []),
         rel_is_dirty = (\<lambda>r. True), rel_clean = (\<lambda>r::unit. r)\<rparr>
        [SetFlags OUTPUT_SINGLE_FIELD]
        (Mapper 0 :: (unit, nat) mapper)))) MapClose"
proof -
  let ?fmt = "\<lambda>(t::nat) (b::bool). ([]::string)"
  let ?ops = "\<lparr>from_json = (\<lambda>frag fl r. r), to_json = (\<lambda>r fl. []),
               rel_is_dirty = (\<lambda>r. True), rel_clean = (\<lambda>r::unit. r)\<rparr>"
  let ?cs = "[SetField ''a'' \<lparr>cell_value = Some (1::nat), cell_dirty = True\<rparr>,
              SetFlags KEEP_FIELDS_DIRTY, SetRaw ''b'' ''{}''] :: (nat, nat, unit) call list"
  let ?sw = "[SetFlags OUTPUT_SINGLE_FIELD] :: (nat, nat, unit) call list"
  let ?m = "Mapper 0 :: (unit, nat) mapper"
  have run: "perform_all ?fmt ?ops ?cs ?m
               = \<lparr>emitter = [MapOpen, EmitKey ''a'', EmitValue (Native 1), EmitKey ''b'',
                               EmitJson ''{}''],
                   parser = Map.empty, flags = KEEP_FIELDS_DIRTY, field_filter = []\<rparr>"
    by (simp add: Mapper_def set_field_def set_raw_def should_defs MapperConfig_defs emit_defs
          field_defs Let_def set_flags_def)
  have kept: "should_output_single_field (perform_all ?fmt ?ops ?cs ?m)
                = should_output_single_field ?m"
    by (simp only: run) (simp add: eval_defs)
  have changed: "should_output_single_field (perform_all ?fmt ?ops ?sw ?m)
                   \<noteq> should_output_single_field ?m"
    by (simp add: eval_defs)
  have ctor: "?m = Mapper 0 \<or> ?m = Mapper_json (\<lambda>s. Map.empty) [] 0"
    by simp
  have paired: "count_list (fst (dump (perform_all ?fmt ?ops ?cs ?m))) MapOpen
                  = count_list (fst (dump (perform_all ?fmt ?ops ?cs ?m))) MapClose"
    using wrapper_paired_iff_mode_kept [OF ctor, where fmt = ?fmt and ops = ?ops and cs = ?cs]
      kept by blast
  have unpaired: "count_list (fst (dump (perform_all ?fmt ?ops ?sw ?m))) MapOpen
                  \<noteq> count_list (fst (dump (perform_all ?fmt ?ops ?sw ?m))) MapClose"
    using wrapper_paired_iff_mode_kept [OF ctor, where fmt = ?fmt and ops = ?ops and cs = ?sw]
      changed by blast
  have out: "fst (dump (perform_all ?fmt ?ops ?cs ?m))
          = [MapOpen, EmitKey ''a'', EmitValue (Native 1), EmitKey ''b'', EmitJson ''{}'',
             MapClose]"
    by (simp only: run) (simp add: eval_defs)
  show ?thesis
    using kept paired out unpaired by blast
qed

section \<open>Deserialization and the serialize-only flags\<close>

text \<open>
  C10. Two mappers over the same document whose bitmasks agree on the
  ignore-missing-fields and touch-fields bits, and differ arbitrarily elsewhere, give the
  same outcome for every typed get (generic, timestamp, primary key) on the same key and
  initial cell: the same error or success and the same final cell.
\<close>

theorem get_ignores_serialize_flags:
  assumes bits: "flags ma AND (IGNORE_MISSING_FIELDS OR TOUCH_FIELDS)
                   = flags mb AND (IGNORE_MISSING_FIELDS OR TOUCH_FIELDS)"
      and doc: "parser ma = parser mb"
  shows "get_field conv ma key attr = get_field conv mb key attr \<and>
         get_time to_string parse ma key tattr = get_time to_string parse mb key tattr \<and>
         get_primary to_int ma key pk = get_primary to_int mb key pk"
proof -
  have i: "should_ignore_missing_fields ma = should_ignore_missing_fields mb"
    unfolding should_ignore_missing_fields_def by (rule bits_of_get(1) [OF bits])
  have t: "should_touch_fields ma = should_touch_fields mb"
    unfolding should_touch_fields_def by (rule bits_of_get(2) [OF bits])
  show ?thesis
  proof (cases "parser mb key")
    case None
    then have "parser ma key = None" by (simp add: doc)
    then show ?thesis using None by (simp add: get_absent i t)
  next
    case (Some n)
    then have "parser ma key = Some n" by (simp add: doc)
    then show ?thesis using Some by (simp add: get_present t)
  qed
qed

theorem get_ignores_serialize_flags_witness:
  "flags (Mapper_json (\<lambda>s. [''a'' \<mapsto> JValue (1::int)]) ''doc'' 0 :: (int, int) mapper)
     AND (IGNORE_MISSING_FIELDS OR TOUCH_FIELDS)
   = flags (Mapper_json (\<lambda>s. [''a'' \<mapsto> JValue (1::int)]) ''doc''
              (INCLUDE_PRIMARY_KEY OR IGNORE_DIRTY_FLAG OR KEEP_FIELDS_DIRTY OR OUTPUT_SINGLE_FIELD)
              :: (int, int) mapper)
     AND (IGNORE_MISSING_FIELDS OR TOUCH_FIELDS) \<and>
   get_field (\<lambda>n. case n of JNull \<Rightarrow> 0 | JValue v \<Rightarrow> v)
     (Mapper_json (\<lambda>s. [''a'' \<mapsto> JValue (1::int)]) ''doc''
        (INCLUDE_PRIMARY_KEY OR IGNORE_DIRTY_FLAG OR KEEP_FIELDS_DIRTY OR OUTPUT_SINGLE_FIELD)
        :: (int, int) mapper)
     ''a'' \<lparr>cell_value = None, cell_dirty = False\<rparr>
   = (None, \<lparr>cell_value = Some (1::int), cell_dirty = True\<rparr>) \<and>
   get_field (\<lambda>n. case n of JNull \<Rightarrow> 0 | JValue v \<Rightarrow> v)
     (Mapper_json (\<lambda>s. [''a'' \<mapsto> JValue (1::int)]) ''doc'' 0 :: (int, int) mapper)
     ''a'' \<lparr>cell_value = None, cell_dirty = False\<rparr>
   = (None, \<lparr>cell_value = Some (1::int), cell_dirty = True\<rparr>)"
proof -
  let ?conv = "\<lambda>n. case n of JNull \<Rightarrow> 0 | JValue v \<Rightarrow> (v::int)"
  let ?c = "\<lparr>cell_value = None :: int option, cell_dirty = False\<rparr>"
  let ?ma = "Mapper_json (\<lambda>s. [''a'' \<mapsto> JValue (1::int)]) ''doc'' 0 :: (int, int) mapper"
  let ?mb = "Mapper_json (\<lambda>s. [''a'' \<mapsto> JValue (1::int)]) ''doc''
              (INCLUDE_PRIMARY_KEY OR IGNORE_DIRTY_FLAG OR KEEP_FIELDS_DIRTY OR OUTPUT_SINGLE_FIELD)
              :: (int, int) mapper"
  have bits: "flags ?ma AND (IGNORE_MISSING_FIELDS OR TOUCH_FIELDS)
                = flags ?mb AND (IGNORE_MISSING_FIELDS OR TOUCH_FIELDS)"
    by (simp add: eval_defs)
  have doc: "parser ?ma = parser ?mb"
    by (simp add: eval_defs)
  have same: "get_field ?conv ?ma ''a'' ?c = get_field ?conv ?mb ''a'' ?c"
    using get_ignores_serialize_flags [OF bits doc, where conv = ?conv and key = "''a''"
        and attr = ?c and to_string = "\<lambda>n. []" and parse = "\<lambda>s. 0::int" and tattr = ?c
        and to_int = ?conv and pk = ?c]
    by blast
  have "get_field ?conv ?ma ''a'' ?c = (None, \<lparr>cell_value = Some (1::int), cell_dirty = True\<rparr>)"
    by (simp add: get_field_def parser_exists_def parser_find_def eval_defs)
  then show ?thesis using same bits by simp
qed

end
